theory Spec2Isabelle
  imports Main "HOL-Library.Char_ord"
begin

section \<open>The health endpoint of \<^verbatim>\<open>apps/api/server.py\<close>\<close>

text \<open>
  The program is one class, \<^verbatim>\<open>Handler(BaseHTTPRequestHandler)\<close>, with the methods
  \<^verbatim>\<open>_send_json\<close>, \<^verbatim>\<open>do_GET\<close> and \<^verbatim>\<open>log_message\<close>, and a main block that reads the
  port and starts an \<^verbatim>\<open>HTTPServer\<close>. The class inherits everything else from
  \<^verbatim>\<open>http.server.BaseHTTPRequestHandler\<close>: the dispatch on the request method
  (\<^verbatim>\<open>handle_one_request\<close>), \<^verbatim>\<open>send_response\<close>, \<^verbatim>\<open>send_header\<close>, \<^verbatim>\<open>end_headers\<close>,
  \<^verbatim>\<open>send_error\<close> and the logging entry points. What the inherited methods do is part of
  what \<^verbatim>\<open>Handler\<close> does, so they are modelled here too, after CPython 3.11, each under
  its own name.

  A Python \<^verbatim>\<open>str\<close> is modelled as a HOL \<^typ>\<open>string\<close>: a list of code points below 256.
  The request line is decoded as ISO-8859-1 by the library, so the method and the path
  of a request are exactly such strings, and every literal of the program is ASCII.
  \<^verbatim>\<open>bytes\<close> is a list of 8-bit characters as well.
\<close>

type_synonym str = string
type_synonym bytes = string

subsection \<open>Built-ins: \<^verbatim>\<open>len\<close>, \<^verbatim>\<open>str\<close> of an integer, \<^verbatim>\<open>str.join\<close>, \<^verbatim>\<open>str.encode\<close>, \<^verbatim>\<open>repr\<close>\<close>

definition len :: "'a list \<Rightarrow> int" where
  "len xs = int (length xs)"

definition hex_digit :: "nat \<Rightarrow> char" where
  "hex_digit d = ''0123456789abcdef'' ! (d mod 16)"

definition hex2 :: "nat \<Rightarrow> str" where
  "hex2 n = [hex_digit (n div 16), hex_digit n]"

fun str_nat :: "nat \<Rightarrow> str" where
  "str_nat n = (if n < 10 then [hex_digit n] else str_nat (n div 10) @ [hex_digit (n mod 10)])"

declare str_nat.simps [simp del]

definition py_str :: "int \<Rightarrow> str" where
  \<comment> \<open>\<^verbatim>\<open>str(i)\<close> for an integer: decimal, no leading zero, a minus sign when negative.\<close>
  "py_str i = (if i < 0 then CHR ''-'' # str_nat (nat (- i)) else str_nat (nat i))"

fun join :: "str \<Rightarrow> str list \<Rightarrow> str" where
  "join sep [] = []"
| "join sep [x] = x"
| "join sep (x # y # ys) = x @ sep @ join sep (y # ys)"

definition utf8_char :: "char \<Rightarrow> bytes" where
  \<comment> \<open>UTF-8 of a code point below 256: one byte below 128, two bytes from 128 on.\<close>
  "utf8_char c =
     (let n = (of_char c :: nat)
      in if n < 128 then [c] else [char_of (192 + n div 64), char_of (128 + n mod 64)])"

definition encode_utf8 :: "str \<Rightarrow> bytes" where
  "encode_utf8 s = concat (map utf8_char s)"

definition isprintable :: "char \<Rightarrow> bool" where
  \<comment> \<open>\<^verbatim>\<open>str.isprintable\<close> on code points below 256: the ASCII graphic characters and
     space, and U+00A1 to U+00FF without the soft hyphen U+00AD.\<close>
  "isprintable c =
     (let n = (of_char c :: nat)
      in if n < 127 then 32 \<le> n else 161 \<le> n \<and> n \<noteq> 173)"

definition repr_char :: "char \<Rightarrow> char \<Rightarrow> str" where
  "repr_char quote c =
     (if c = quote \<or> c = CHR 0x5C then [CHR 0x5C, c]
      else if c = CHR 0x09 then [CHR 0x5C, CHR ''t'']
      else if c = CHR 0x0A then [CHR 0x5C, CHR ''n'']
      else if c = CHR 0x0D then [CHR 0x5C, CHR ''r'']
      else if isprintable c then [c]
      else [CHR 0x5C, CHR ''x''] @ hex2 (of_char c))"

definition repr :: "str \<Rightarrow> str" where
  \<comment> \<open>\<^verbatim>\<open>repr(s)\<close>, which \<^verbatim>\<open>%r\<close> formats with: single quotes, unless the string has a
     single quote and no double quote.\<close>
  "repr s =
     (let quote = (if CHR 0x27 \<in> set s \<and> CHR 0x22 \<notin> set s then CHR 0x22 else CHR 0x27)
      in [quote] @ concat (map (repr_char quote) s) @ [quote])"

subsection \<open>\<^verbatim>\<open>json.dumps\<close> on a dict of strings\<close>

text \<open>
  The payloads of the program are dicts from \<^verbatim>\<open>str\<close> to \<^verbatim>\<open>str\<close>; a dict keeps its
  insertion order, so it is an association list here. With the default arguments
  \<^verbatim>\<open>json.dumps\<close> separates items by \<^verbatim>\<open>", "\<close> and key from value by \<^verbatim>\<open>": "\<close>, and
  escapes every character outside the printable ASCII range (\<^verbatim>\<open>ensure_ascii\<close>).
\<close>

definition escape_ascii :: "char \<Rightarrow> str" where
  "escape_ascii c =
     (if c = CHR 0x5C then [CHR 0x5C, CHR 0x5C]
      else if c = CHR 0x22 then [CHR 0x5C, CHR 0x22]
      else if c = CHR 0x08 then [CHR 0x5C, CHR ''b'']
      else if c = CHR 0x0C then [CHR 0x5C, CHR ''f'']
      else if c = CHR 0x0A then [CHR 0x5C, CHR ''n'']
      else if c = CHR 0x0D then [CHR 0x5C, CHR ''r'']
      else if c = CHR 0x09 then [CHR 0x5C, CHR ''t'']
      else if CHR 0x20 \<le> c \<and> c \<le> CHR 0x7E then [c]
      else [CHR 0x5C, CHR ''u'', CHR ''0'', CHR ''0''] @ hex2 (of_char c))"

definition encode_basestring_ascii :: "str \<Rightarrow> str" where
  "encode_basestring_ascii s = [CHR 0x22] @ concat (map escape_ascii s) @ [CHR 0x22]"

definition json_dumps :: "(str \<times> str) list \<Rightarrow> str" where
  "json_dumps payload =
     ''{'' @ join '', ''
               (map (\<lambda>(k, v). encode_basestring_ascii k @ '': '' @ encode_basestring_ascii v)
                    payload)
           @ ''}''"

subsection \<open>The error page of \<^verbatim>\<open>send_error\<close>\<close>

definition html_escape :: "str \<Rightarrow> str" where
  \<comment> \<open>\<^verbatim>\<open>html.escape(s, quote=False)\<close>\<close>
  "html_escape s =
     concat (map (\<lambda>c. if c = CHR ''&'' then ''&amp;''
                       else if c = CHR ''<'' then ''&lt;''
                       else if c = CHR ''>'' then ''&gt;''
                       else [c]) s)"

definition error_message_format :: "int \<Rightarrow> str \<Rightarrow> str \<Rightarrow> str" where
  \<comment> \<open>\<^verbatim>\<open>DEFAULT_ERROR_MESSAGE % {'code': code, 'message': message, 'explain': explain}\<close>\<close>
  \<open>error_message_format code message explain =
     concat (map (\<lambda>l. l @ [CHR 0x0A])
       [''<!DOCTYPE HTML>'',
        ''<html lang="en">'',
        ''    <head>'',
        ''        <meta charset="utf-8">'',
        ''        <title>Error response</title>'',
        ''    </head>'',
        ''    <body>'',
        ''        <h1>Error response</h1>'',
        ''        <p>Error code: '' @ py_str code @ ''</p>'',
        ''        <p>Message: '' @ message @ ''.</p>'',
        ''        <p>Error code explanation: '' @ py_str code @ '' - '' @ explain @ ''.</p>'',
        ''    </body>'',
        ''</html>''])\<close>

definition error_content_type :: str where
  "error_content_type = ''text/html;charset=utf-8''"

definition NOT_IMPLEMENTED :: "int \<times> str \<times> str" where
  \<comment> \<open>\<^verbatim>\<open>HTTPStatus.NOT_IMPLEMENTED\<close>: value, phrase, description\<close>
  "NOT_IMPLEMENTED = (501, ''Not Implemented'', ''Server does not support this operation'')"

subsection \<open>Requests, responses and the handler object\<close>

text \<open>
  A request is what \<^verbatim>\<open>parse_request\<close> leaves in the handler when it succeeds on an
  HTTP/1.x request line: \<^verbatim>\<open>requestline\<close>, \<^verbatim>\<open>command\<close> (the method) and \<^verbatim>\<open>path\<close> (the
  request target, query string included). A response is what the handler has written
  to the client: the code of the status line (the reason phrase after it is left out),
  the header lines in order, the body.

  The handler object carries the request, the two values the library reads from its
  surroundings while it answers (\<^verbatim>\<open>version_string()\<close> of the interpreter and
  \<^verbatim>\<open>date_time_string()\<close>, the rendering of the clock at that moment), the buffer
  \<^verbatim>\<open>_headers_buffer\<close> (status line and header lines kept apart), the stream \<^verbatim>\<open>wfile\<close>
  to the client and the lines written to \<^verbatim>\<open>sys.stderr\<close>.
\<close>

record response =
  status :: "int option"
  headers :: "(str \<times> str) list"
  body :: bytes

record request =
  requestline :: str
  command :: str
  path :: str

record handler = request +
  version_string :: str
  date_time_string :: str
  status_line :: "int option"
  headers_buffer :: "(str \<times> str) list"
  wfile :: response
  stderr :: "str list"

subsection \<open>\<^verbatim>\<open>Handler.log_message\<close>\<close>

definition log_message :: "str \<Rightarrow> str list \<Rightarrow> handler \<Rightarrow> handler" where
  \<comment> \<open>the override of the program: \<^verbatim>\<open>return\<close>, nothing is written\<close>
  "log_message format args self = self"

subsection \<open>Inherited methods of \<^verbatim>\<open>BaseHTTPRequestHandler\<close>\<close>

definition log_request :: "int \<Rightarrow> handler \<Rightarrow> handler" where
  \<open>log_request code self =
     log_message ''"%s" %s %s'' [requestline self, py_str code, ''-''] self\<close>

definition log_error :: "str \<Rightarrow> str list \<Rightarrow> handler \<Rightarrow> handler" where
  "log_error format args self = log_message format args self"

definition send_response_only :: "int \<Rightarrow> handler \<Rightarrow> handler" where
  "send_response_only code self = self\<lparr>status_line := Some code\<rparr>"

definition send_header :: "str \<Rightarrow> str \<Rightarrow> handler \<Rightarrow> handler" where
  "send_header keyword v self = self\<lparr>headers_buffer := headers_buffer self @ [(keyword, v)]\<rparr>"

definition send_response :: "int \<Rightarrow> handler \<Rightarrow> handler" where
  "send_response code self =
     (let self = log_request code self;
          self = send_response_only code self;
          self = send_header ''Server'' (version_string self) self
      in send_header ''Date'' (date_time_string self) self)"

definition flush_headers :: "handler \<Rightarrow> handler" where
  "flush_headers self =
     self\<lparr>wfile := (wfile self)\<lparr>status := status_line self,
                                 headers := headers (wfile self) @ headers_buffer self\<rparr>,
          status_line := None,
          headers_buffer := []\<rparr>"

definition end_headers :: "handler \<Rightarrow> handler" where
  "end_headers self = flush_headers self"

definition wfile_write :: "bytes \<Rightarrow> handler \<Rightarrow> handler" where
  "wfile_write b self = self\<lparr>wfile := (wfile self)\<lparr>body := body (wfile self) @ b\<rparr>\<rparr>"

definition send_error :: "int \<times> str \<times> str \<Rightarrow> str \<Rightarrow> handler \<Rightarrow> handler" where
  "send_error st message self =
     (let code = fst st;
          explain = snd (snd st);
          self = log_error ''code %d, message %s'' [py_str code, message] self;
          self = send_response code self;
          self = send_header ''Connection'' ''close'' self;
          has_body = (200 \<le> code \<and> code \<notin> {204, 205, 304});
          content = error_message_format code (html_escape message) (html_escape explain);
          b = encode_utf8 content;
          self = (if has_body
                  then send_header ''Content-Length'' (py_str (len b))
                         (send_header ''Content-Type'' error_content_type self)
                  else self);
          self = end_headers self
      in if command self \<noteq> ''HEAD'' \<and> has_body \<and> b \<noteq> [] then wfile_write b self else self)"

subsection \<open>\<^verbatim>\<open>Handler._send_json\<close> and \<^verbatim>\<open>Handler.do_GET\<close>\<close>

definition send_json :: "int \<Rightarrow> (str \<times> str) list \<Rightarrow> handler \<Rightarrow> handler" where
  "send_json status_code payload self =
     (let b = encode_utf8 (json_dumps payload);
          self = send_response status_code self;
          self = send_header ''Content-Type'' ''application/json'' self;
          self = send_header ''Content-Length'' (py_str (len b)) self;
          self = end_headers self
      in wfile_write b self)"

definition do_GET :: "handler \<Rightarrow> handler" where
  "do_GET self =
     (if path self = ''/health''
      then send_json 200 [(''status'', ''ok'')] self
      else send_json 404 [(''error'', ''not_found'')] self)"

subsection \<open>The dispatch of \<^verbatim>\<open>handle_one_request\<close>\<close>

definition hasattr :: "str \<Rightarrow> bool" where
  \<comment> \<open>\<^verbatim>\<open>hasattr(self, mname)\<close> for a name that starts with \<^verbatim>\<open>do_\<close>: the class defines
     \<^verbatim>\<open>do_GET\<close> and the base class no \<^verbatim>\<open>do_\<close> method at all.\<close>
  "hasattr mname = (mname = ''do_GET'')"

definition handle_one_request :: "handler \<Rightarrow> handler" where
  "handle_one_request self =
     (let mname = ''do_'' @ command self
      in if \<not> hasattr mname
         then send_error NOT_IMPLEMENTED (''Unsupported method ('' @ repr (command self) @ '')'') self
         else do_GET self)"

subsection \<open>The server loop\<close>

text \<open>
  \<^verbatim>\<open>serve_forever\<close> takes one request at a time and answers it with a fresh \<^verbatim>\<open>Handler\<close>
  object; with the protocol version of the class (HTTP/1.0) every connection carries
  one request. The loop is modelled on a finite list of arrivals, each a reading of
  the clock and a request; \<^verbatim>\<open>sys.stderr\<close> is the one thing that lives across requests.
\<close>

definition Handler :: "str \<Rightarrow> str list \<Rightarrow> str \<Rightarrow> request \<Rightarrow> handler" where
  "Handler ver err now r =
     \<lparr>requestline = requestline r, command = command r, path = path r,
      version_string = ver, date_time_string = now,
      status_line = None, headers_buffer = [],
      wfile = \<lparr>status = None, headers = [], body = []\<rparr>,
      stderr = err\<rparr>"

fun serve_forever :: "str \<Rightarrow> str list \<Rightarrow> (str \<times> request) list \<Rightarrow> response list \<times> str list" where
  "serve_forever ver err [] = ([], err)"
| "serve_forever ver err ((now, r) # arrivals) =
     (let self = handle_one_request (Handler ver err now r);
          (out, err') = serve_forever ver (stderr self) arrivals
      in (wfile self # out, err'))"

definition respond :: "str \<Rightarrow> str \<Rightarrow> request \<Rightarrow> response" where
  \<comment> \<open>the response to one request, on a server whose version string is \<open>ver\<close>, at a
     moment that \<^verbatim>\<open>date_time_string()\<close> renders as \<open>now\<close>\<close>
  "respond ver now r = wfile (handle_one_request (Handler ver [] now r))"

subsection \<open>Startup: \<^verbatim>\<open>int(os.getenv("PORT", "8081"))\<close>\<close>

text \<open>
  \<^verbatim>\<open>int\<close> on a string, base ten: white space around, one optional sign, decimal digits
  with single underscores between them. On code points below 256 the white space is
  TAB, LF, VT, FF, CR, space, U+0085 and U+00A0, and the decimal digits are the ASCII
  ones. CPython refuses a literal of more than \<^verbatim>\<open>sys.get_int_max_str_digits()\<close> digits
  (4300 unless configured; 0 switches the limit off; it looks at the limit only
  above 640 digits): the limit is a field of the process. Every failure is a
  \<^verbatim>\<open>ValueError\<close>.
\<close>

definition isspace :: "char \<Rightarrow> bool" where
  "isspace c =
     (c \<in> set [CHR 0x09, CHR 0x0A, CHR 0x0B, CHR 0x0C, CHR 0x0D, CHR 0x20, CHR 0x85, CHR 0xA0])"

definition isdigit :: "char \<Rightarrow> bool" where
  "isdigit c = (CHR ''0'' \<le> c \<and> c \<le> CHR ''9'')"

definition digit_value :: "char \<Rightarrow> nat" where
  "digit_value c = of_char c - 48"

definition decimal :: "str \<Rightarrow> nat" where
  "decimal ds = foldl (\<lambda>a c. 10 * a + digit_value c) 0 ds"

fun grouped :: "str \<Rightarrow> bool" where
  \<comment> \<open>a digit, then digits each with at most one underscore before it\<close>
  "grouped [] = False"
| "grouped [c] = isdigit c"
| "grouped (c # d # cs) = (isdigit c \<and> (if d = CHR ''_'' then grouped cs else grouped (d # cs)))"

definition py_int :: "nat \<Rightarrow> str \<Rightarrow> int option" where
  "py_int max_str_digits s =
     (let s1 = dropWhile isspace s;
          neg = (take 1 s1 = ''-'');
          s2 = (if take 1 s1 = ''-'' \<or> take 1 s1 = ''+'' then drop 1 s1 else s1);
          lit = takeWhile (\<lambda>c. isdigit c \<or> c = CHR ''_'') s2;
          rest = dropWhile (\<lambda>c. isdigit c \<or> c = CHR ''_'') s2;
          ds = filter isdigit lit
      in if grouped lit \<and> list_all isspace rest \<and>
            (length ds \<le> 640 \<or> max_str_digits = 0 \<or> length ds \<le> max_str_digits)
         then Some (if neg then - int (decimal ds) else int (decimal ds))
         else None)"

datatype exception = ValueError

record process =
  environ :: "str \<rightharpoonup> str"
  int_max_str_digits :: nat

definition getenv :: "process \<Rightarrow> str \<Rightarrow> str \<Rightarrow> str" where
  "getenv p key dflt = (case environ p key of None \<Rightarrow> dflt | Some v \<Rightarrow> v)"

definition main :: "process \<Rightarrow> exception + (str \<times> int)" where
  \<comment> \<open>The result is the address \<^verbatim>\<open>HTTPServer\<close> is created with, on which \<^verbatim>\<open>serve_forever\<close>
     then runs; the exception of \<^verbatim>\<open>int\<close> is not caught and ends the process before that.\<close>
  "main p =
     (case py_int (int_max_str_digits p) (getenv p ''PORT'' ''8081'') of
        None \<Rightarrow> Inl ValueError
      | Some port \<Rightarrow> Inr (''0.0.0.0'', port))"

subsection \<open>The client's side: reading a header, a length and a JSON text\<close>



datatype json =
    JNull
  | JBool bool
  | JNumber str
  | JString str
  | JArray "json list"
  | JObject "(str \<times> json) list"

fun decode_utf8 :: "bytes \<Rightarrow> str option" where
  "decode_utf8 [] = Some []"
| "decode_utf8 [b] = (if (of_char b :: nat) < 128 then Some [b] else None)"
| "decode_utf8 (b # b' # bs) =
     (let n = (of_char b :: nat); m = (of_char b' :: nat)
      in if n < 128 then map_option ((#) b) (decode_utf8 (b' # bs))
         else if (n = 194 \<or> n = 195) \<and> 128 \<le> m \<and> m < 192
         then map_option ((#) (char_of ((n - 192) * 64 + (m - 128)))) (decode_utf8 bs)
         else None)"

definition skip_ws :: "str \<Rightarrow> str" where
  "skip_ws s = dropWhile (\<lambda>c. c \<in> set [CHR 0x20, CHR 0x09, CHR 0x0A, CHR 0x0D]) s"

definition hex_value :: "char \<Rightarrow> nat option" where
  "hex_value c =
     (if isdigit c then Some (of_char c - 48)
      else if CHR ''a'' \<le> c \<and> c \<le> CHR ''f'' then Some (of_char c - 87)
      else if CHR ''A'' \<le> c \<and> c \<le> CHR ''F'' then Some (of_char c - 55)
      else None)"

definition hex4 :: "str \<Rightarrow> nat option" where
  "hex4 s =
     (case map hex_value s of
        [Some a, Some b, Some c, Some d] \<Rightarrow> Some (((a * 16 + b) * 16 + c) * 16 + d)
      | _ \<Rightarrow> None)"

definition unescape :: "char \<Rightarrow> char option" where
  "unescape e =
     (if e = CHR 0x22 \<or> e = CHR 0x5C \<or> e = CHR ''/'' then Some e
      else if e = CHR ''b'' then Some (CHR 0x08)
      else if e = CHR ''f'' then Some (CHR 0x0C)
      else if e = CHR ''n'' then Some (CHR 0x0A)
      else if e = CHR ''r'' then Some (CHR 0x0D)
      else if e = CHR ''t'' then Some (CHR 0x09)
      else None)"

fun scan_string :: "nat \<Rightarrow> str \<Rightarrow> (str \<times> str) option" where
  \<comment> \<open>the characters of a string after its opening quote, and what follows the closing one\<close>
  "scan_string 0 s = None"
| "scan_string (Suc n) [] = None"
| "scan_string (Suc n) (c # cs) =
     (if c = CHR 0x22 then Some ([], cs)
      else if c = CHR 0x5C then
        (if take 1 cs = ''u'' then
           (case hex4 (take 4 (drop 1 cs)) of
              None \<Rightarrow> None
            | Some u \<Rightarrow>
                if u < 256
                then map_option (\<lambda>(t, r). (char_of u # t, r)) (scan_string n (drop 5 cs))
                else None)
         else
           (case cs of
              [] \<Rightarrow> None
            | e # es \<Rightarrow>
                (case unescape e of
                   None \<Rightarrow> None
                 | Some x \<Rightarrow> map_option (\<lambda>(t, r). (x # t, r)) (scan_string n es))))
      else if c < CHR 0x20 then None
      else map_option (\<lambda>(t, r). (c # t, r)) (scan_string n cs))"

definition scan_digits :: "str \<Rightarrow> (str \<times> str) option" where
  \<comment> \<open>one digit or more\<close>
  "scan_digits s =
     (if takeWhile isdigit s = [] then None else Some (takeWhile isdigit s, dropWhile isdigit s))"

definition scan_number :: "str \<Rightarrow> (str \<times> str) option" where
  "scan_number s =
     (let sign = (if take 1 s = ''-'' then ''-'' else []);
          s1 = drop (length sign) s
      in case (if take 1 s1 = ''0'' then Some (''0'', drop 1 s1) else scan_digits s1) of
           None \<Rightarrow> None
         | Some (ip, s2) \<Rightarrow>
             (let (fp, s3) =
                    (case (if take 1 s2 = ''.'' then scan_digits (drop 1 s2) else None) of
                       None \<Rightarrow> ([], s2)
                     | Some (ds, r) \<Rightarrow> (''.'' @ ds, r));
                  e = (if take 1 s3 = ''e'' \<or> take 1 s3 = ''E'' then take 1 s3 else []);
                  s4 = drop (length e) s3;
                  sg = (if take 1 s4 = ''-'' \<or> take 1 s4 = ''+'' then take 1 s4 else []);
                  (ep, s5) =
                    (case (if e = [] then None else scan_digits (drop (length sg) s4)) of
                       None \<Rightarrow> ([], s3)
                     | Some (ds, r) \<Rightarrow> (e @ sg @ ds, r))
              in Some (sign @ ip @ fp @ ep, s5)))"

fun parse_value :: "nat \<Rightarrow> str \<Rightarrow> (json \<times> str) option"
  and parse_elements :: "nat \<Rightarrow> str \<Rightarrow> (json list \<times> str) option"
  and parse_members :: "nat \<Rightarrow> str \<Rightarrow> ((str \<times> json) list \<times> str) option"
where
  "parse_value 0 s = None"
| "parse_value (Suc n) s =
     (if take 1 s = ''{'' then
        (if take 1 (skip_ws (drop 1 s)) = ''}''
         then Some (JObject [], drop 1 (skip_ws (drop 1 s)))
         else map_option (\<lambda>(ms, r). (JObject ms, r)) (parse_members n (skip_ws (drop 1 s))))
      else if take 1 s = ''['' then
        (if take 1 (skip_ws (drop 1 s)) = '']''
         then Some (JArray [], drop 1 (skip_ws (drop 1 s)))
         else map_option (\<lambda>(vs, r). (JArray vs, r)) (parse_elements n (skip_ws (drop 1 s))))
      else if take 1 s = [CHR 0x22] then
        map_option (\<lambda>(t, r). (JString t, r)) (scan_string (length s) (drop 1 s))
      else if take 4 s = ''true'' then Some (JBool True, drop 4 s)
      else if take 5 s = ''false'' then Some (JBool False, drop 5 s)
      else if take 4 s = ''null'' then Some (JNull, drop 4 s)
      else map_option (\<lambda>(t, r). (JNumber t, r)) (scan_number s))"
| "parse_elements 0 s = None"
| "parse_elements (Suc n) s =
     (case parse_value n s of
        None \<Rightarrow> None
      | Some (v, r) \<Rightarrow>
          if take 1 (skip_ws r) = '','' then
            map_option (\<lambda>(vs, r'). (v # vs, r')) (parse_elements n (skip_ws (drop 1 (skip_ws r))))
          else if take 1 (skip_ws r) = '']'' then Some ([v], drop 1 (skip_ws r))
          else None)"
| "parse_members 0 s = None"
| "parse_members (Suc n) s =
     (if take 1 s = [CHR 0x22] then
        (case scan_string (length s) (drop 1 s) of
           None \<Rightarrow> None
         | Some (k, r) \<Rightarrow>
             if take 1 (skip_ws r) = '':'' then
               (case parse_value n (skip_ws (drop 1 (skip_ws r))) of
                  None \<Rightarrow> None
                | Some (v, r') \<Rightarrow>
                    if take 1 (skip_ws r') = '','' then
                      map_option (\<lambda>(ms, r''). ((k, v) # ms, r''))
                        (parse_members n (skip_ws (drop 1 (skip_ws r'))))
                    else if take 1 (skip_ws r') = ''}'' then Some ([(k, v)], drop 1 (skip_ws r'))
                    else None)
             else None)
      else None)"

definition json_loads :: "bytes \<Rightarrow> json option" where
  "json_loads b =
     (case decode_utf8 b of
        None \<Rightarrow> None
      | Some s \<Rightarrow>
          (case parse_value (Suc (length s)) (skip_ws s) of
             None \<Rightarrow> None
           | Some (v, r) \<Rightarrow> if skip_ws r = [] then Some v else None))"

definition valid_json :: "bytes \<Rightarrow> bool" where
  "valid_json b = (case json_loads b of None \<Rightarrow> False | Some v \<Rightarrow> True)"

section \<open>Properties\<close>

subsection \<open>What one request is answered with\<close>

lemmas handler_defs =
  handle_one_request_def hasattr_def do_GET_def send_json_def send_error_def send_response_def
  log_request_def log_error_def log_message_def send_response_only_def send_header_def
  end_headers_def flush_headers_def wfile_write_def Handler_def NOT_IMPLEMENTED_def

lemma stderr_handle_one_request: "stderr (handle_one_request self) = stderr self"
  by (simp add: handler_defs Let_def)

lemma handle_GET:
  "command r = ''GET'' \<Longrightarrow>
   handle_one_request (Handler ver err now r) =
     (Handler ver err now r)
       \<lparr>wfile :=
          (let code = (if path r = ''/health'' then 200 else 404);
               b = encode_utf8 (json_dumps (if path r = ''/health'' then [(''status'', ''ok'')]
                                            else [(''error'', ''not_found'')]))
           in \<lparr>status = Some code,
               headers = [(''Server'', ver), (''Date'', now),
                          (''Content-Type'', ''application/json''),
                          (''Content-Length'', py_str (len b))],
               body = b\<rparr>)\<rparr>"
  by (simp add: handler_defs Let_def)

lemma handle_other:
  "command r \<noteq> ''GET'' \<Longrightarrow>
   handle_one_request (Handler ver err now r) =
     (Handler ver err now r)
       \<lparr>wfile :=
          (let b = encode_utf8 (error_message_format 501
                      (html_escape (''Unsupported method ('' @ repr (command r) @ '')''))
                      (html_escape ''Server does not support this operation''))
           in \<lparr>status = Some 501,
               headers = [(''Server'', ver), (''Date'', now), (''Connection'', ''close''),
                          (''Content-Type'', error_content_type),
                          (''Content-Length'', py_str (len b))],
               body = (if command r \<noteq> ''HEAD'' \<and> b \<noteq> [] then b else [])\<rparr>)\<rparr>"
  by (simp add: handler_defs Let_def)

lemma body_ok: \<open>encode_utf8 (json_dumps [(''status'', ''ok'')]) = ''{"status": "ok"}''\<close>
  by (simp add: json_dumps_def encode_basestring_ascii_def escape_ascii_def encode_utf8_def utf8_char_def)

lemma body_not_found: \<open>encode_utf8 (json_dumps [(''error'', ''not_found'')]) = ''{"error": "not_found"}''\<close>
  by (simp add: json_dumps_def encode_basestring_ascii_def escape_ascii_def encode_utf8_def utf8_char_def)

lemma loads_ok: \<open>json_loads ''{"status": "ok"}'' = Some (JObject [(''status'', JString ''ok'')])\<close>
  by (simp add: json_loads_def skip_ws_def)

lemma loads_not_found: \<open>json_loads ''{"error": "not_found"}'' = Some (JObject [(''error'', JString ''not_found'')])\<close>
  by (simp add: json_loads_def skip_ws_def)

subsection \<open>Decimal numbers\<close>






subsection \<open>Texts that are not JSON\<close>

lemma decode_utf8_ascii:
  "(of_char c :: nat) < 128 \<Longrightarrow> decode_utf8 (c # bs) = map_option ((#) c) (decode_utf8 bs)"
  by (cases bs) simp_all

lemma parse_value_lt: "parse_value n (CHR ''<'' # s) = None"
  by (cases n) (simp_all add: scan_number_def scan_digits_def isdigit_def)

lemma skip_ws_lt: "skip_ws (CHR ''<'' # s) = CHR ''<'' # s"
  by (simp add: skip_ws_def)

lemma json_loads_lt: "json_loads (CHR ''<'' # bs) = None"
proof -
  have d: "decode_utf8 (CHR ''<'' # bs) = map_option ((#) CHR ''<'') (decode_utf8 bs)"
    by (rule decode_utf8_ascii) simp
  show ?thesis
  proof (cases "decode_utf8 bs")
    case None
    with d show ?thesis by (simp add: json_loads_def)
  next
    case (Some s)
    with d have "decode_utf8 (CHR ''<'' # bs) = Some (CHR ''<'' # s)" by simp
    then show ?thesis
      by (simp only: json_loads_def option.case skip_ws_lt parse_value_lt)
  qed
qed

lemma json_loads_empty: "json_loads [] = None"
  by (simp add: json_loads_def skip_ws_def scan_number_def scan_digits_def)

lemma error_page_first:
  "\<exists>s. error_message_format code message explain = CHR ''<'' # s"
  by (simp add: error_message_format_def)

lemma encode_utf8_lt: "encode_utf8 (CHR ''<'' # s) = CHR ''<'' # encode_utf8 s"
  by (simp add: encode_utf8_def utf8_char_def)

lemma error_page_lt:
  "\<exists>bs. encode_utf8 (error_message_format code message explain) = CHR ''<'' # bs"
  using error_page_first [of code message explain] encode_utf8_lt by auto

subsection \<open>The routes of \<^verbatim>\<open>do_GET\<close>\<close>

lemma respond_GET:
  "command r = ''GET'' \<Longrightarrow>
   respond ver now r =
     (let code = (if path r = ''/health'' then 200 else 404);
          b = (if path r = ''/health'' then ''{\"status\": \"ok\"}'' else ''{\"error\": \"not_found\"}'')
      in \<lparr>status = Some code,
          headers = [(''Server'', ver), (''Date'', now),
                     (''Content-Type'', ''application/json''),
                     (''Content-Length'', py_str (len b))],
          body = b\<rparr>)"
  by (simp add: respond_def handle_GET body_ok body_not_found Let_def)








subsection \<open>Methods other than GET\<close>

lemma respond_other:
  assumes other: "command r \<noteq> ''GET''"
  shows "\<exists>b. json_loads b = None \<and> b \<noteq> [] \<and>
     respond ver now r =
       \<lparr>status = Some 501,
        headers = [(''Server'', ver), (''Date'', now), (''Connection'', ''close''),
                   (''Content-Type'', ''text/html;charset=utf-8''),
                   (''Content-Length'', py_str (len b))],
        body = (if command r = ''HEAD'' then [] else b)\<rparr>"
proof -
  define b where "b = encode_utf8 (error_message_format 501
                      (html_escape (''Unsupported method ('' @ repr (command r) @ '')''))
                      (html_escape ''Server does not support this operation''))"
  obtain bs where bs: "b = CHR ''<'' # bs"
    unfolding b_def using error_page_lt by blast
  then have nj: "json_loads b = None" and ne: "b \<noteq> []"
    by (simp_all add: json_loads_lt)
  have "handle_one_request (Handler ver [] now r) =
     (Handler ver [] now r)
       \<lparr>wfile :=
           \<lparr>status = Some 501,
            headers = [(''Server'', ver), (''Date'', now), (''Connection'', ''close''),
                       (''Content-Type'', error_content_type),
                       (''Content-Length'', py_str (len b))],
            body = (if command r \<noteq> ''HEAD'' \<and> b \<noteq> [] then b else [])\<rparr>\<rparr>"
    using handle_other [OF other, of ver "[]" now] unfolding Let_def b_def [symmetric] .
  with ne have "respond ver now r =
       \<lparr>status = Some 501,
        headers = [(''Server'', ver), (''Date'', now), (''Connection'', ''close''),
                   (''Content-Type'', ''text/html;charset=utf-8''),
                   (''Content-Length'', py_str (len b))],
        body = (if command r = ''HEAD'' then [] else b)\<rparr>"
    by (simp add: respond_def error_content_type_def)
  with nj ne show ?thesis by blast
qed




subsection \<open>Headers and body of every response\<close>

lemma respond_post_health:
  "\<exists>b. json_loads b = None \<and> b \<noteq> [] \<and>
     respond ''BaseHTTP/0.6 Python/3.11.10'' ''Thu, 01 Jan 1970 00:00:00 GMT''
       \<lparr>requestline = ''POST /health HTTP/1.1'', command = ''POST'', path = ''/health''\<rparr> =
     \<lparr>status = Some 501,
      headers = [(''Server'', ''BaseHTTP/0.6 Python/3.11.10''),
                 (''Date'', ''Thu, 01 Jan 1970 00:00:00 GMT''), (''Connection'', ''close''),
                 (''Content-Type'', ''text/html;charset=utf-8''),
                 (''Content-Length'', py_str (len b))],
      body = b\<rparr>"
proof -
  have "command \<lparr>requestline = ''POST /health HTTP/1.1'', command = ''POST'', path = ''/health''\<rparr> \<noteq> ''GET''"
    by simp
  from respond_other [OF this, of "''BaseHTTP/0.6 Python/3.11.10''" "''Thu, 01 Jan 1970 00:00:00 GMT''"]
  show ?thesis by simp
qed

lemma other_method_body:
  assumes "command r \<noteq> ''GET''"
  shows "json_loads (body (respond ver now r)) = None"
proof -
  from respond_other [OF assms, of ver now] obtain b where
    "json_loads b = None" and
    "respond ver now r =
       \<lparr>status = Some 501,
        headers = [(''Server'', ver), (''Date'', now), (''Connection'', ''close''),
                   (''Content-Type'', ''text/html;charset=utf-8''),
                   (''Content-Length'', py_str (len b))],
        body = (if command r = ''HEAD'' then [] else b)\<rparr>"
    by blast
  then show ?thesis by (simp add: json_loads_empty)
qed




text \<open>
  C5 (as amended). The body of the response is a JSON text exactly when the method of
  the request is GET: both bodies of \<^verbatim>\<open>do_GET\<close> are JSON texts, and the body sent for any
  other method, the HTML page of \<^verbatim>\<open>send_error\<close> or nothing at all for HEAD, is not.
\<close>

theorem body_valid_json_iff_get:
  "valid_json (body (respond ver now r)) = (command r = ''GET'')"
proof (cases "command r = ''GET''")
  case True
  then show ?thesis
    by (simp add: respond_GET Let_def valid_json_def loads_ok loads_not_found)
next
  case False
  from other_method_body [OF False, of ver now] False show ?thesis
    by (simp add: valid_json_def)
qed

text \<open>
  The claim as the specification has it, a JSON body for every request that was parsed,
  fails at \<^verbatim>\<open>POST /health\<close>.
\<close>

theorem post_body_counterexample:
  "\<not> valid_json (body (respond ''BaseHTTP/0.6 Python/3.11.10'' ''Thu, 01 Jan 1970 00:00:00 GMT''
            \<lparr>requestline = ''POST /health HTTP/1.1'', command = ''POST'', path = ''/health''\<rparr>))"
  using respond_post_health by (auto simp: valid_json_def)

subsection \<open>Across requests: the clock, the loop and the log\<close>

lemma respond_shape:
  "\<exists>code hs b. ''Date'' \<notin> fst ` set hs \<and>
     (\<forall>now. respond ver now r =
        \<lparr>status = code, headers = [(''Server'', ver), (''Date'', now)] @ hs, body = b\<rparr>)"
proof (cases "command r = ''GET''")
  case True
  define b :: bytes where
    "b = (if path r = ''/health'' then ''{\"status\": \"ok\"}'' else ''{\"error\": \"not_found\"}'')"
  define hs where
    "hs = [(''Content-Type'', ''application/json''), (''Content-Length'', py_str (len b))]"
  have "''Date'' \<notin> fst ` set hs" by (simp add: hs_def)
  moreover have "respond ver now r =
      \<lparr>status = Some (if path r = ''/health'' then 200 else 404),
       headers = [(''Server'', ver), (''Date'', now)] @ hs, body = b\<rparr>" for now
    using True by (simp add: respond_GET Let_def hs_def b_def)
  ultimately show ?thesis by blast
next
  case False
  define b where "b = encode_utf8 (error_message_format 501
                      (html_escape (''Unsupported method ('' @ repr (command r) @ '')''))
                      (html_escape ''Server does not support this operation''))"
  define hs where
    "hs = [(''Connection'', ''close''), (''Content-Type'', error_content_type),
           (''Content-Length'', py_str (len b))]"
  have "''Date'' \<notin> fst ` set hs" by (simp add: hs_def)
  moreover have "respond ver now r =
      \<lparr>status = Some 501, headers = [(''Server'', ver), (''Date'', now)] @ hs,
       body = (if command r \<noteq> ''HEAD'' \<and> b \<noteq> [] then b else [])\<rparr>" for now
  proof -
    have "handle_one_request (Handler ver [] now r) =
       (Handler ver [] now r)
         \<lparr>wfile :=
             \<lparr>status = Some 501,
              headers = [(''Server'', ver), (''Date'', now), (''Connection'', ''close''),
                         (''Content-Type'', error_content_type),
                         (''Content-Length'', py_str (len b))],
              body = (if command r \<noteq> ''HEAD'' \<and> b \<noteq> [] then b else [])\<rparr>\<rparr>"
      using handle_other [OF False, of ver "[]" now] unfolding Let_def b_def [symmetric] .
    then show ?thesis by (simp add: respond_def hs_def)
  qed
  ultimately show ?thesis by blast
qed

lemma wfile_handle_one_request:
  "wfile (handle_one_request (Handler ver err now r)) = respond ver now r"
proof (cases "command r = ''GET''")
  case True
  then show ?thesis by (simp add: respond_def handle_GET)
next
  case False
  then show ?thesis by (simp add: respond_def handle_other)
qed

lemma stderr_Handler: "stderr (Handler ver err now r) = err"
  by (simp add: Handler_def)

lemma serve_forever_eq:
  "serve_forever ver err arrivals = (map (\<lambda>(now, r). respond ver now r) arrivals, err)"
proof (induction arrivals arbitrary: err)
  case Nil
  show ?case by simp
next
  case (Cons a arrivals)
  obtain now r where a: "a = (now, r)" by (cases a)
  show ?case
    by (simp add: a Cons.IH Let_def wfile_handle_one_request stderr_handle_one_request
        stderr_Handler)
qed

text \<open>
  C8 (as amended). The response to a request is a function of the request and of the
  clock alone, and of the clock only in its \<^verbatim>\<open>Date\<close> header: two identical requests,
  handled at any two moments, get the same status, the same body and the same headers
  apart from \<^verbatim>\<open>Date\<close>. Nothing is carried from one request to the next: the responses
  of the server loop are the responses to each request on its own, whatever was handled
  before.
\<close>

theorem responses_equal_up_to_date:
  "status (respond ver t1 r) = status (respond ver t2 r) \<and>
   body (respond ver t1 r) = body (respond ver t2 r) \<and>
   filter (\<lambda>h. fst h \<noteq> ''Date'') (headers (respond ver t1 r)) =
     filter (\<lambda>h. fst h \<noteq> ''Date'') (headers (respond ver t2 r)) \<and>
   fst (serve_forever ver err arrivals) = map (\<lambda>(now, r). respond ver now r) arrivals"
proof -
  from respond_shape [of ver r] obtain code hs b where
    "\<And>now. respond ver now r =
        \<lparr>status = code, headers = [(''Server'', ver), (''Date'', now)] @ hs, body = b\<rparr>"
    by blast
  then show ?thesis
    by (simp add: serve_forever_eq)
qed

text \<open>
  The claim as the specification has it, byte-identical responses at any time, fails
  for \<^verbatim>\<open>GET /health\<close> at two readings of the clock: \<^verbatim>\<open>send_response\<close> stamps each
  response with the \<^verbatim>\<open>Date\<close> header.
\<close>

theorem date_header_counterexample:
  "respond ''BaseHTTP/0.6 Python/3.11.10'' ''Thu, 01 Jan 1970 00:00:00 GMT''
     \<lparr>requestline = ''GET /health HTTP/1.1'', command = ''GET'', path = ''/health''\<rparr>
   \<noteq>
   respond ''BaseHTTP/0.6 Python/3.11.10'' ''Thu, 01 Jan 1970 00:00:01 GMT''
     \<lparr>requestline = ''GET /health HTTP/1.1'', command = ''GET'', path = ''/health''\<rparr>"
  by (simp add: respond_GET Let_def)

text \<open>
  C9. Handling a request writes nothing to \<^verbatim>\<open>sys.stderr\<close>: every logging entry point of
  the library ends in \<^verbatim>\<open>log_message\<close>, which the class overrides with a method that
  returns at once. So the log is the same after a request as before it, and after any
  run of the server loop.
\<close>

theorem no_log_output:
  "stderr (handle_one_request self) = stderr self \<and>
   snd (serve_forever ver err arrivals) = err"
  by (simp add: stderr_handle_one_request serve_forever_eq)

subsection \<open>Startup\<close>





lemma py_int_foreign_char:
  assumes c: "c \<in> set s"
    and foreign: "\<not> isdigit c" "\<not> isspace c" "c \<noteq> CHR ''-''" "c \<noteq> CHR ''+''" "c \<noteq> CHR ''_''"
  shows "py_int lim s = None"
proof -
  define s1 where "s1 = dropWhile isspace s"
  define s2 where "s2 = (if take 1 s1 = ''-'' \<or> take 1 s1 = ''+'' then drop 1 s1 else s1)"
  define rest where "rest = dropWhile (\<lambda>c. isdigit c \<or> c = CHR ''_'') s2"
  have "set s = set (takeWhile isspace s) \<union> set s1"
    unfolding s1_def by (metis set_append takeWhile_dropWhile_id)
  moreover have "c \<notin> set (takeWhile isspace s)"
    using foreign(2) by (auto dest: set_takeWhileD)
  ultimately have c1: "c \<in> set s1" using c by auto
  have c2: "c \<in> set s2"
  proof (cases s1)
    case Nil
    with c1 show ?thesis by simp
  next
    case (Cons x xs)
    with c1 foreign(3,4) show ?thesis by (auto simp: s2_def)
  qed
  have "set s2 = set (takeWhile (\<lambda>c. isdigit c \<or> c = CHR ''_'') s2) \<union> set rest"
    unfolding rest_def by (metis set_append takeWhile_dropWhile_id)
  moreover have "c \<notin> set (takeWhile (\<lambda>c. isdigit c \<or> c = CHR ''_'') s2)"
    using foreign(1,5) by (auto dest: set_takeWhileD)
  ultimately have "c \<in> set rest" using c2 by auto
  with foreign(2) have "\<not> list_all isspace rest"
    by (auto simp: list_all_iff)
  then show ?thesis
    unfolding py_int_def Let_def s1_def [symmetric] s2_def [symmetric] rest_def [symmetric]
    by simp
qed

text \<open>
  C6. When \<^verbatim>\<open>PORT\<close> is set to a value that \<^verbatim>\<open>int\<close> does not accept, startup ends with
  the \<^verbatim>\<open>ValueError\<close> of \<^verbatim>\<open>int\<close>, before any server is created; the default 8081 is used
  only when the variable is absent, so there is no fall-back to it.
\<close>

theorem unparsable_port_fails:
  assumes "environ p ''PORT'' = Some s" and "py_int (int_max_str_digits p) s = None"
  shows "main p = Inl ValueError \<and> main p \<noteq> Inr (''0.0.0.0'', 8081)"
  using assms by (simp add: main_def getenv_def)

theorem unparsable_port_fails_witness:
  "environ \<lparr>environ = [''PORT'' \<mapsto> ''abc''], int_max_str_digits = 4300\<rparr> ''PORT'' = Some ''abc'' \<and>
   py_int (int_max_str_digits \<lparr>environ = [''PORT'' \<mapsto> ''abc''], int_max_str_digits = 4300\<rparr>) ''abc''
     = None \<and>
   main \<lparr>environ = [''PORT'' \<mapsto> ''abc''], int_max_str_digits = 4300\<rparr> = Inl ValueError \<and>
   main \<lparr>environ = [''PORT'' \<mapsto> ''abc''], int_max_str_digits = 4300\<rparr> \<noteq> Inr (''0.0.0.0'', 8081)"
proof -
  have "py_int 4300 ''abc'' = None"
    by (rule py_int_foreign_char [of "CHR ''a''"]) (simp_all add: isdigit_def isspace_def)
  with unparsable_port_fails
         [of "\<lparr>environ = [''PORT'' \<mapsto> ''abc''], int_max_str_digits = 4300\<rparr>" "''abc''"]
  show ?thesis by simp
qed



end
